theory Spec2Isabelle
  imports Main "HOL-Library.Sublist"
begin

section \<open>Data model of the preflight pipeline (background.ts)\<close>

text \<open>
  The three enums of background.ts. \<open>FetchPlan.Blocked\<close> is written \<open>PlanBlocked\<close>,
  because \<open>LinkType.Blocked\<close> already owns the name.
\<close>

datatype LinkType = Webpage | PDF | Download | Image | Video | Mailto | Tel | Anchor | Blocked

datatype RiskLevel = Green | Amber | Red

datatype FetchPlan = PlanBlocked | HeadOnly | PartialGet | NoFetch

record RiskSignal =
  level :: RiskLevel
  reason :: string

section \<open>Risk reduction and the fetch planner\<close>

text \<open>
  \<open>scoreRisk\<close>: the result object \<open>{risk, reasons}\<close> is the pair \<open>(risk, reasons)\<close>;
  \<open>slice(0, 2)\<close> is \<open>take 2\<close>.
\<close>

definition scoreRisk :: "RiskSignal list \<Rightarrow> RiskLevel \<times> string list" where
  "scoreRisk signals =
     (if length signals = 0 then (Green, [])
      else let redSignals = filter (\<lambda>s. level s = Red) signals in
        if length redSignals > 0 then (Red, map reason (take 2 redSignals))
        else let amberSignals = filter (\<lambda>s. level s = Amber) signals in
          if length amberSignals > 0 then (Amber, map reason (take 2 amberSignals))
          else (Green, []))"

text \<open>The order Green < Amber < Red of the tiers, as a rank.\<close>

fun tierRank :: "RiskLevel \<Rightarrow> nat" where
  "tierRank Green = 0"
| "tierRank Amber = 1"
| "tierRank Red = 2"

definition decideFetchPlan :: "LinkType \<Rightarrow> RiskLevel \<Rightarrow> FetchPlan" where
  "decideFetchPlan type risk =
     (if type = Blocked then PlanBlocked
      else if risk = Red \<and> type = Download then PlanBlocked
      else if type \<in> set [Mailto, Tel, Anchor, Video] then NoFetch
      else if type = Image then PartialGet
      else if type = Webpage \<or> type = PDF then PartialGet
      else if type = Download then HeadOnly
      else PartialGet)"

text \<open>
  The planner's table as the specification words it (section 4.4), one row per
  priority, to be compared with \<open>decideFetchPlan\<close>.
\<close>

definition fetchPlanTable :: "LinkType \<Rightarrow> RiskLevel \<Rightarrow> FetchPlan" where
  "fetchPlanTable type tier =
     (if type = Blocked then PlanBlocked
      else if type = Download \<and> tier = Red then PlanBlocked
      else if type \<in> {Mailto, Tel, Anchor, Video} then NoFetch
      else if type \<in> {Image, Webpage, PDF} then PartialGet
      else if type = Download then HeadOnly
      else PartialGet)"

section \<open>Strings\<close>

text \<open>
  A JavaScript string is modelled as a \<open>string\<close>: a list of 8-bit code units, read
  as the code points U+0000 to U+00FF. The built-in string methods the pipeline calls
  are written out on that type.
\<close>

definition toLowerChar :: "char \<Rightarrow> char" where
  "toLowerChar c =
     (let n = (of_char c :: nat) in
      if (65 \<le> n \<and> n \<le> 90) \<or> (192 \<le> n \<and> n \<le> 222 \<and> n \<noteq> 215)
      then char_of (n + 32) else c)"

definition toLowerCase :: "string \<Rightarrow> string" where
  "toLowerCase s = map toLowerChar s"

definition includesStr :: "string \<Rightarrow> string \<Rightarrow> bool" where
  "includesStr s t = sublist t s"

definition startsWith :: "string \<Rightarrow> string \<Rightarrow> bool" where
  "startsWith s t = prefix t s"

definition endsWith :: "string \<Rightarrow> string \<Rightarrow> bool" where
  "endsWith s t = suffix t s"

text \<open>\<open>s.split(sep)\<close> for a non-empty separator: at least one piece, also for the empty string.\<close>

function splitAcc :: "string \<Rightarrow> string \<Rightarrow> string \<Rightarrow> string list" where
  "splitAcc sep [] acc = [rev acc]"
| "splitAcc sep (c # cs) acc =
     (if sep \<noteq> [] \<and> prefix sep (c # cs)
      then rev acc # splitAcc sep (drop (length sep) (c # cs)) []
      else splitAcc sep cs (c # acc))"
  by pat_completeness auto
termination
  by (relation "measure (\<lambda>(sep, s, acc). length s)") (auto simp: neq_Nil_conv)

definition splitStr :: "string \<Rightarrow> string \<Rightarrow> string list" where
  "splitStr s sep = splitAcc sep s []"

text \<open>\<open>parts.join(sep)\<close>.\<close>

fun joinStr :: "string list \<Rightarrow> string \<Rightarrow> string" where
  "joinStr [] sep = []"
| "joinStr [p] sep = p"
| "joinStr (p # q # ps) sep = p @ sep @ joinStr (q # ps) sep"

text \<open>\<open>xs[i]\<close> on an array: \<open>undefined\<close> (here \<open>None\<close>) when out of range.\<close>

definition elemAt :: "'a list \<Rightarrow> nat \<Rightarrow> 'a option" where
  "elemAt xs i = (if i < length xs then Some (xs ! i) else None)"

text \<open>\<open>String(n)\<close> of a non-negative integer, as a template string inserts it.\<close>

definition digitChar :: "nat \<Rightarrow> char" where
  "digitChar d = char_of (48 + d)"

fun showNat :: "nat \<Rightarrow> string" where
  "showNat n = (if n < 10 then [digitChar n] else showNat (n div 10) @ [digitChar (n mod 10)])"

declare showNat.simps [simp del]

text \<open>
  \<open>parseInt(s, 10)\<close>: leading white space, an optional sign, then the longest run of
  decimal digits; \<open>NaN\<close> when there is no digit. The value is an unbounded integer
  here: it is the source's value up to \<open>2^53\<close>, above which the source rounds to
  the nearest double. It only feeds the \<open>size\<close> field of a result.
\<close>

datatype Number = NaN | Num int

definition isWhiteSpace :: "char \<Rightarrow> bool" where
  "isWhiteSpace c = ((of_char c :: nat) \<in> set [9, 10, 11, 12, 13, 32, 160])"

definition isDigit :: "char \<Rightarrow> bool" where
  "isDigit c = (48 \<le> (of_char c :: nat) \<and> (of_char c :: nat) \<le> 57)"

definition digitsValue :: "string \<Rightarrow> int" where
  "digitsValue ds = foldl (\<lambda>acc c. 10 * acc + (int (of_char c) - 48)) 0 ds"

definition parseInt10 :: "string \<Rightarrow> Number" where
  "parseInt10 s =
     (let t = dropWhile isWhiteSpace s;
          neg = (t \<noteq> [] \<and> hd t = CHR ''-'');
          u = (if t \<noteq> [] \<and> (hd t = CHR ''-'' \<or> hd t = CHR ''+'') then tl t else t);
          ds = takeWhile isDigit u
      in if ds = [] then NaN
         else Num (if neg then - digitsValue ds else digitsValue ds))"

section \<open>URLs\<close>

text \<open>
  The fields of a parsed \<open>URL\<close> object that the pipeline reads. \<open>searchParams\<close> is
  the list of (name, value) pairs of the query, in order.
\<close>

record URL =
  href :: string
  protocol :: string
  hostname :: string
  pathname :: string
  search :: string
  hash :: string
  searchParams :: "(string \<times> string) list"

text \<open>\<open>url.searchParams.get(name)\<close>: the first value of that name, or \<open>null\<close>.\<close>

definition searchParamsGet :: "URL \<Rightarrow> string \<Rightarrow> string option" where
  "searchParamsGet url name = map_of (searchParams url) name"

section \<open>The browser as a parameter\<close>

text \<open>
  What the pipeline asks of the platform, and the repository does not define:
  \<^item> \<open>newURL input base\<close> is \<open>new URL(input, base)\<close> (\<open>base = None\<close> for the
    one-argument form); \<open>None\<close> stands for the \<open>TypeError\<close> it throws;
  \<^item> \<open>fetchHead log url\<close> is \<open>fetch(url, {method: 'HEAD', redirect: 'manual', ...})\<close>
    after the requests of \<open>log\<close> were issued; \<open>None\<close> stands for a rejected
    promise (network failure, or the abort of the 1.5 s timer);
  \<^item> \<open>fetchRange log url\<close> is the ranged GET of \<open>performSniff\<close> followed by
    \<open>response.arrayBuffer()\<close>: either of the two promises is rejected
    (\<open>RangeRejected\<close>), or the body arrives (\<open>RangeBody\<close>), or the headers arrive
    and the body never completes (\<open>RangeStalls\<close>). The last case is possible because
    \<open>performSniff\<close> clears its 1.5 s abort timer as soon as \<open>fetch\<close> resolves,
    before it awaits \<open>arrayBuffer()\<close>: nothing ends that wait.
  A response may depend on every request made before it, so a server may answer the same
  URL differently each time.
\<close>

datatype Method = HEAD | GET

datatype RangeOutcome = RangeRejected | RangeBody "nat list" | RangeStalls

record Request =
  reqMethod :: Method
  reqUrl :: string

record Response =
  status :: nat
  headerLocation :: "string option"
  headerContentType :: "string option"
  headerContentLength :: "string option"
  headerContentDisposition :: "string option"

record Browser =
  newURL :: "string \<Rightarrow> string option \<Rightarrow> URL option"
  fetchHead :: "Request list \<Rightarrow> string \<Rightarrow> Response option"
  fetchRange :: "Request list \<Rightarrow> string \<Rightarrow> RangeOutcome"

section \<open>Risk signal catalog\<close>

record VideoPlatform =
  platform :: string
  videoId :: "string option"
  embedUrl :: "string option"

definition extractDomain :: "URL \<Rightarrow> string" where
  "extractDomain url = hostname url"

text \<open>
  \<open>x || undefined\<close> and \<open>videoId ? ... : undefined\<close> on an optional string: the
  empty string is falsy.
\<close>

definition truthy :: "string option \<Rightarrow> string option" where
  "truthy v = (case v of None \<Rightarrow> None | Some s \<Rightarrow> if s = [] then None else Some s)"

definition detectVideoPlatform :: "URL \<Rightarrow> VideoPlatform option" where
  "detectVideoPlatform url =
     (let hostname = toLowerCase (hostname url);
          pathname = pathname url in
      if includesStr hostname ''youtube.com'' \<or> includesStr hostname ''youtu.be'' then
        (let videoId =
           (if includesStr hostname ''youtu.be'' then
              map_option (\<lambda>p. hd (splitStr p ''?'')) (elemAt (splitStr pathname ''/'') 1)
            else if includesStr pathname ''/watch'' then
              truthy (searchParamsGet url ''v'')
            else if includesStr pathname ''/embed/'' then
              map_option (\<lambda>p. hd (splitStr p ''?'')) (elemAt (splitStr pathname ''/embed/'') 1)
            else if includesStr pathname ''/shorts/'' then
              map_option (\<lambda>p. hd (splitStr p ''?'')) (elemAt (splitStr pathname ''/shorts/'') 1)
            else None)
         in Some \<lparr>platform = ''youtube'', videoId = videoId,
                  embedUrl = map_option (\<lambda>v. ''https://www.youtube.com/embed/'' @ v) (truthy videoId)\<rparr>)
      else if includesStr hostname ''vimeo.com'' then
        (let videoId = elemAt (filter (\<lambda>p. p \<noteq> []) (splitStr pathname ''/'')) 0
         in Some \<lparr>platform = ''vimeo'', videoId = videoId,
                  embedUrl = map_option (\<lambda>v. ''https://player.vimeo.com/video/'' @ v) (truthy videoId)\<rparr>)
      else if includesStr hostname ''dailymotion.com'' \<or> includesStr hostname ''dai.ly'' then
        (let videoId =
           (if includesStr hostname ''dai.ly'' then elemAt (splitStr pathname ''/'') 1
            else if includesStr pathname ''/video/'' then
              map_option (\<lambda>p. hd (splitStr p ''_'')) (elemAt (splitStr pathname ''/video/'') 1)
            else None)
         in Some \<lparr>platform = ''dailymotion'', videoId = videoId,
                  embedUrl = map_option (\<lambda>v. ''https://www.dailymotion.com/embed/video/'' @ v)
                               (truthy videoId)\<rparr>)
      else if includesStr hostname ''tiktok.com'' then
        Some \<lparr>platform = ''tiktok'', videoId = Some pathname, embedUrl = None\<rparr>
      else if includesStr hostname ''twitch.tv'' then
        Some \<lparr>platform = ''twitch'', videoId = Some pathname, embedUrl = None\<rparr>
      else if \<exists>ext \<in> set [''.mp4'', ''.webm'', ''.ogg'', ''.mov'', ''.avi'', ''.mkv'', ''.m4v''].
                endsWith (toLowerCase pathname) ext then
        Some \<lparr>platform = ''video-file'', videoId = None, embedUrl = None\<rparr>
      else None)"

text \<open>
  \<open>normalizeAndGate\<close>: \<open>None\<close> is the source's \<open>null\<close>, returned both when
  \<open>new URL\<close> throws and when the scheme is one of the four dangerous ones. The Red
  signal pushed before \<open>return null\<close> is lost with the local array, so the list
  returned with a URL is always empty.
\<close>

definition dangerousSchemes :: "string list" where
  "dangerousSchemes = [''javascript:'', ''data:'', ''file:'', ''vbscript:'']"

definition normalizeAndGate :: "Browser \<Rightarrow> string \<Rightarrow> string \<Rightarrow> (URL \<times> RiskSignal list) option" where
  "normalizeAndGate env href' pageOrigin =
     (let signals = [] in
      case newURL env href' (Some pageOrigin) of
        None \<Rightarrow> None
      | Some url \<Rightarrow>
          if \<exists>scheme \<in> set dangerousSchemes. protocol url = scheme then None
          else Some (url, signals))"

definition isSamePageAnchor :: "Browser \<Rightarrow> URL \<Rightarrow> string \<Rightarrow> bool" where
  "isSamePageAnchor env url pageOrigin =
     (case newURL env pageOrigin None of
        None \<Rightarrow> False
      | Some pageUrl \<Rightarrow>
          hostname url = hostname pageUrl \<and>
          pathname url = pathname pageUrl \<and>
          hash url \<noteq> [] \<and>
          search url = search pageUrl)"

text \<open>
  \<open>detectHomograph\<close>: the three character-class tests and the confusables, on code
  units. (A \<open>hostname\<close> produced by the URL parser is ASCII: any other character is
  Punycode- or percent-encoded there.)
\<close>

definition codeUnitIn :: "string \<Rightarrow> nat \<Rightarrow> nat \<Rightarrow> bool" where
  "codeUnitIn s lo hi = (\<exists>c \<in> set s. lo \<le> (of_char c :: nat) \<and> (of_char c :: nat) \<le> hi)"

definition detectHomograph :: "string \<Rightarrow> bool" where
  "detectHomograph domain =
     (let hasCyrillic = codeUnitIn domain 0x400 0x4FF;
          hasLatin = (codeUnitIn domain 97 122 \<or> codeUnitIn domain 65 90);
          hasGreek = codeUnitIn domain 0x370 0x3FF
      in if (hasCyrillic \<and> hasLatin) \<or> (hasGreek \<and> hasLatin) then True
         else includesStr domain ''xn--'' \<or>
              (\<exists>cp \<in> set [0x430, 0x435, 0x43E, 0x440, 0x441, 0x445]. codeUnitIn domain cp cp))"

text \<open>
  The regular expression of \<open>checkAnchorTextMismatch\<close>,
  \<^verbatim>\<open>/(?:https?:\/\/)?([a-zA-Z0-9.-]+\.[a-zA-Z]{2,})/i\<close>, as a matcher that returns
  capture group 1 of the leftmost match. The group is matched inside the maximal run of
  \<^verbatim>\<open>[a-zA-Z0-9.-]\<close> characters: the greedy \<open>+\<close> gives back characters until
  it stands before a dot followed by two letters, so the last such dot of the run is
  taken; the letters after it are taken greedily.
\<close>

definition isAlpha :: "char \<Rightarrow> bool" where
  "isAlpha c = (let n = (of_char c :: nat) in (97 \<le> n \<and> n \<le> 122) \<or> (65 \<le> n \<and> n \<le> 90))"

definition isDomainChar :: "char \<Rightarrow> bool" where
  "isDomainChar c = (isAlpha c \<or> isDigit c \<or> c = CHR ''.'' \<or> c = CHR ''-'')"

definition matchGroup :: "string \<Rightarrow> string option" where
  "matchGroup t =
     (let run = takeWhile isDomainChar t in
      case filter (\<lambda>n. run ! n = CHR ''.'' \<and> n + 2 < length run \<and>
                        isAlpha (run ! (n + 1)) \<and> isAlpha (run ! (n + 2)))
                  (rev [1 ..< length run]) of
        [] \<Rightarrow> None
      | n # _ \<Rightarrow> Some (take (n + 1) run @ takeWhile isAlpha (drop (n + 1) run)))"

definition matchAt :: "string \<Rightarrow> string option" where
  "matchAt t =
     (let lower = toLowerCase t;
          withScheme =
            (if prefix ''https://'' lower then matchGroup (drop 8 t)
             else if prefix ''http://'' lower then matchGroup (drop 7 t)
             else None)
      in case withScheme of Some g \<Rightarrow> Some g | None \<Rightarrow> matchGroup t)"

fun matchDomainPattern :: "string \<Rightarrow> string option" where
  "matchDomainPattern [] = matchAt []"
| "matchDomainPattern (c # cs) =
     (case matchAt (c # cs) of Some g \<Rightarrow> Some g | None \<Rightarrow> matchDomainPattern cs)"

record TextMismatch =
  textDomain :: string
  linkDomain :: string

text \<open>\<open>s.replace(/^www\./, '')\<close>.\<close>

definition stripWww :: "string \<Rightarrow> string" where
  "stripWww s = (if startsWith s ''www.'' then drop 4 s else s)"

definition extractTopLevel :: "string \<Rightarrow> string" where
  "extractTopLevel domain =
     (let parts = splitStr domain ''.'' in
      if length parts \<ge> 2 then joinStr (drop (length parts - 2) parts) ''.''
      else domain)"

definition checkAnchorTextMismatch :: "string \<Rightarrow> string \<Rightarrow> TextMismatch option" where
  "checkAnchorTextMismatch anchorText hrefDomain =
     (case truthy (matchDomainPattern anchorText) of
        None \<Rightarrow> None
      | Some m1 \<Rightarrow>
          (let textDomain = toLowerCase m1;
               normalizedHrefDomain = stripWww (toLowerCase hrefDomain);
               normalizedTextDomain = stripWww textDomain
           in if normalizedTextDomain \<noteq> normalizedHrefDomain
              then Some \<lparr>textDomain = extractTopLevel normalizedTextDomain,
                         linkDomain = extractTopLevel normalizedHrefDomain\<rparr>
              else None))"

definition checkHttpsDowngrade :: "Browser \<Rightarrow> URL \<Rightarrow> string \<Rightarrow> bool" where
  "checkHttpsDowngrade env targetUrl pageOrigin =
     (case newURL env pageOrigin None of
        None \<Rightarrow> False
      | Some pageUrl \<Rightarrow>
          (protocol pageUrl = ''https:'' \<or> protocol pageUrl = ''chrome-extension:'') \<and>
          protocol targetUrl = ''http:'')"

definition performLexicalChecks ::
  "Browser \<Rightarrow> URL \<Rightarrow> string \<Rightarrow> string \<Rightarrow> RiskSignal list \<times> TextMismatch option" where
  "performLexicalChecks env url anchorText pageOrigin =
     (let signals0 = [];
          signals1 = (if detectHomograph (hostname url)
                      then signals0 @ [\<lparr>level = Amber, reason = ''Suspicious domain characters''\<rparr>]
                      else signals0);
          textMismatch = checkAnchorTextMismatch anchorText (hostname url);
          signals2 = (if checkHttpsDowngrade env url pageOrigin
                      then signals1 @ [\<lparr>level = Amber, reason = ''HTTP (not secure)''\<rparr>]
                      else signals1)
      in (signals2, textMismatch))"

section \<open>Type classification\<close>

definition downloadTypes :: "string list" where
  "downloadTypes =
     [''application/octet-stream'', ''application/x-msdownload'',
      ''application/x-msdos-program'', ''application/zip'',
      ''application/x-zip-compressed'', ''application/x-rar-compressed'',
      ''application/x-7z-compressed'', ''application/x-tar'', ''application/x-gzip'']"

definition determineLinkTypeFromContentType :: "string \<Rightarrow> string option \<Rightarrow> LinkType" where
  "determineLinkTypeFromContentType contentType contentDisposition =
     (let ct = toLowerCase contentType in
      if (case contentDisposition of None \<Rightarrow> False
          | Some cd \<Rightarrow> includesStr (toLowerCase cd) ''attachment'') then Download
      else if includesStr ct ''application/pdf'' then PDF
      else if startsWith ct ''image/'' then Image
      else if startsWith ct ''video/'' \<or> includesStr ct ''application/x-mpegurl'' then Video
      else if \<exists>t \<in> set downloadTypes. includesStr ct t then Download
      else if includesStr ct ''text/html'' \<or> includesStr ct ''application/xhtml'' then Webpage
      else Webpage)"

definition imageExts :: "string list" where
  "imageExts = [''.jpg'', ''.jpeg'', ''.png'', ''.gif'', ''.webp'', ''.svg'', ''.bmp'', ''.ico'']"

definition videoExts :: "string list" where
  "videoExts = [''.mp4'', ''.webm'', ''.ogg'', ''.mov'', ''.avi'', ''.mkv'', ''.m4v'']"

definition downloadExts :: "string list" where
  "downloadExts = [''.zip'', ''.tar'', ''.gz'', ''.rar'', ''.7z'', ''.exe'', ''.dmg'', ''.deb'', ''.rpm'']"

definition guesslinkTypeFromUrl :: "Browser \<Rightarrow> string \<Rightarrow> LinkType option" where
  "guesslinkTypeFromUrl env url =
     (case newURL env url None of
        None \<Rightarrow> None
      | Some urlObj \<Rightarrow>
          (let pathname = toLowerCase (pathname urlObj) in
           if endsWith pathname ''.pdf'' \<or> includesStr pathname ''/pdf/'' then Some PDF
           else if \<exists>ext \<in> set imageExts. endsWith pathname ext then Some Image
           else if \<exists>ext \<in> set videoExts. endsWith pathname ext then Some Video
           else if \<exists>ext \<in> set downloadExts. endsWith pathname ext then Some Download
           else None))"

text \<open>\<open>checkMagicBytes\<close> on the bytes of a \<open>Uint8Array\<close>, each below 256.\<close>

definition checkMagicBytes :: "nat list \<Rightarrow> LinkType option" where
  "checkMagicBytes bytes =
     (if length bytes \<ge> 4 \<and> bytes ! 0 = 0x25 \<and> bytes ! 1 = 0x50 \<and>
         bytes ! 2 = 0x44 \<and> bytes ! 3 = 0x46 then Some PDF
      else if length bytes \<ge> 4 \<and> bytes ! 0 = 0x50 \<and> bytes ! 1 = 0x4B \<and>
         (bytes ! 2 = 0x03 \<or> bytes ! 2 = 0x05) then Some Download
      else if length bytes \<ge> 2 \<and> bytes ! 0 = 0x4D \<and> bytes ! 1 = 0x5A then Some Download
      else if length bytes \<ge> 4 \<and> bytes ! 0 = 0x7F \<and> bytes ! 1 = 0x45 \<and>
         bytes ! 2 = 0x4C \<and> bytes ! 3 = 0x46 then Some Download
      else None)"

section \<open>Network prober\<close>

text \<open>
  \<open>HeadResult\<close>. Three fields carry the prefix \<open>head\<close> (\<open>finalUrl\<close>,
  \<open>redirectCount\<close>, \<open>signals\<close> in the source), since \<open>PreflightResult\<close> has
  fields of the same names.
\<close>

record HeadResult =
  headFinalUrl :: string
  contentType :: string
  contentLength :: "Number option"
  contentDisposition :: "string option"
  headRedirectCount :: nat
  headSignals :: "RiskSignal list"

definition maxRedirects :: nat where
  "maxRedirects = 3"

text \<open>
  The content type guessed from the URL, as the branch for status 405 computes it, and
  as the \<open>catch\<close> block and the code after the loop compute it (no case for
  \<open>Download\<close> there).
\<close>

definition fallbackContentType405 :: "LinkType option \<Rightarrow> string" where
  "fallbackContentType405 guessedType =
     (if guessedType = Some PDF then ''application/pdf''
      else if guessedType = Some Image then ''image/jpeg''
      else if guessedType = Some Video then ''video/mp4''
      else if guessedType = Some Download then ''application/octet-stream''
      else ''text/html'')"

definition fallbackContentType :: "LinkType option \<Rightarrow> string" where
  "fallbackContentType guessedType =
     (if guessedType = Some PDF then ''application/pdf''
      else if guessedType = Some Image then ''image/jpeg''
      else if guessedType = Some Video then ''video/mp4''
      else ''text/html'')"

definition fallbackResult :: "Browser \<Rightarrow> string \<Rightarrow> nat \<Rightarrow> RiskSignal list \<Rightarrow> HeadResult" where
  "fallbackResult env currentUrl redirectCount signals =
     \<lparr>headFinalUrl = currentUrl,
      contentType = fallbackContentType (guesslinkTypeFromUrl env currentUrl),
      contentLength = None,
      contentDisposition = None,
      headRedirectCount = redirectCount,
      headSignals = signals\<rparr>"

definition redirectsSignal :: "nat \<Rightarrow> RiskSignal" where
  "redirectsSignal redirectCount =
     \<lparr>level = Amber, reason = ''Redirects x'' @ showNat redirectCount\<rparr>"

text \<open>
  The \<open>while\<close> loop of \<open>performHeadRequest\<close>, one HEAD request per round; the log
  grows by the request of the round. \<open>continue\<close> is the recursive call, \<open>break\<close>
  and the exit of the loop lead to the code after the loop (\<open>fallbackResult\<close>), and
  an exception anywhere in the \<open>try\<close> block leads to the \<open>catch\<close> block
  (\<open>fallbackResult\<close> again, with the counter and signals as they stand).
\<close>

function headLoop ::
  "Browser \<Rightarrow> Request list \<Rightarrow> string \<Rightarrow> nat \<Rightarrow> RiskSignal list \<Rightarrow> HeadResult \<times> Request list" where
  "headLoop env log currentUrl redirectCount signals =
     (if redirectCount \<le> maxRedirects then
        (let log1 = log @ [\<lparr>reqMethod = HEAD, reqUrl = currentUrl\<rparr>] in
         case fetchHead env log currentUrl of
           None \<Rightarrow> (fallbackResult env currentUrl redirectCount signals, log1)
         | Some response \<Rightarrow>
             if status response = 405 then
               (\<lparr>headFinalUrl = currentUrl,
                 contentType = fallbackContentType405 (guesslinkTypeFromUrl env currentUrl),
                 contentLength = None,
                 contentDisposition = None,
                 headRedirectCount = redirectCount,
                 headSignals = signals\<rparr>, log1)
             else
               (case (if status response \<ge> 300 \<and> status response < 400
                      then truthy (headerLocation response) else None) of
                  Some location \<Rightarrow>
                    if redirectCount + 1 > maxRedirects then
                      (fallbackResult env currentUrl (redirectCount + 1)
                         (signals @ [redirectsSignal (redirectCount + 1)]), log1)
                    else
                      (case newURL env location (Some currentUrl) of
                         None \<Rightarrow> (fallbackResult env currentUrl (redirectCount + 1) signals, log1)
                       | Some nextUrl \<Rightarrow>
                           headLoop env log1 (href nextUrl) (redirectCount + 1) signals)
                | None \<Rightarrow>
                    (let signals1 = (if redirectCount \<ge> 2
                                     then signals @ [redirectsSignal redirectCount]
                                     else signals);
                         contentType = (case truthy (headerContentType response) of
                                          Some ct \<Rightarrow> ct | None \<Rightarrow> ''text/html'');
                         contentLength = headerContentLength response;
                         contentDisposition = headerContentDisposition response
                     in (\<lparr>headFinalUrl = currentUrl,
                          contentType = contentType,
                          contentLength = map_option parseInt10 (truthy contentLength),
                          contentDisposition = contentDisposition,
                          headRedirectCount = redirectCount,
                          headSignals = signals1\<rparr>, log1))))
      else (fallbackResult env currentUrl redirectCount signals, log))"
  by pat_completeness auto
termination
  by (relation "measure (\<lambda>(env, log, currentUrl, redirectCount, signals).
                  maxRedirects + 1 - redirectCount)") auto

declare headLoop.simps [simp del]

definition performHeadRequest :: "Browser \<Rightarrow> Request list \<Rightarrow> URL \<Rightarrow> HeadResult \<times> Request list" where
  "performHeadRequest env log url = headLoop env log (href url) 0 []"

text \<open>
  \<open>performSniff\<close>: the sniffed type (\<open>null\<close> is the inner \<open>None\<close>) and the log,
  or \<open>None\<close> when the promise never settles, which is the case of a body that never
  completes; a rejection is caught and gives \<open>null\<close>.
\<close>

definition performSniff ::
  "Browser \<Rightarrow> Request list \<Rightarrow> string \<Rightarrow> (LinkType option \<times> Request list) option" where
  "performSniff env log url =
     (let log1 = log @ [\<lparr>reqMethod = GET, reqUrl = url\<rparr>] in
      case fetchRange env log url of
        RangeRejected \<Rightarrow> Some (None, log1)
      | RangeBody bytes \<Rightarrow> Some (checkMagicBytes bytes, log1)
      | RangeStalls \<Rightarrow> None)"

text \<open>
  \<open>performPartialFetch\<close>. The GET either rejects (the abort of the timer, or a
  network failure) or gives a response; the body, when there is one, is read chunk by
  chunk: each \<open>reader.read()\<close> yields the next chunk, rejects, or (when the list is
  used up) reports \<open>done\<close>.
\<close>

datatype FetchError = Http999 | HttpStatus nat | NoResponseBody | TimedOut | FetchFailed | ReadFailed

datatype ReadStep = Chunk "nat list" | ReadRejects

record GetResponse =
  getStatus :: nat
  getContentType :: "string option"
  getBody :: "ReadStep list option"

datatype GetOutcome = Aborted | Rejected | Responded GetResponse

text \<open>
  The \<open>while (totalLength < maxBytes)\<close> loop: \<open>chunks.push(value)\<close>, then the
  counter, then the test that cancels the reader and breaks.
\<close>

fun readChunks ::
  "nat \<Rightarrow> ReadStep list \<Rightarrow> nat list list \<Rightarrow> nat \<Rightarrow> FetchError + (nat list list \<times> nat)" where
  "readChunks maxBytes [] chunks totalLength = Inr (chunks, totalLength)"
| "readChunks maxBytes (ReadRejects # rest) chunks totalLength =
     (if totalLength < maxBytes then Inl ReadFailed else Inr (chunks, totalLength))"
| "readChunks maxBytes (Chunk v # rest) chunks totalLength =
     (if totalLength < maxBytes then
        (let chunks1 = chunks @ [v];
             totalLength1 = totalLength + length v
         in if totalLength1 \<ge> maxBytes then Inr (chunks1, totalLength1)
            else readChunks maxBytes rest chunks1 totalLength1)
      else Inr (chunks, totalLength))"

text \<open>
  The result \<open>{data, contentType}\<close> is a pair. \<open>combined\<close> has \<open>totalLength\<close>
  bytes and every chunk is copied into it in order: the concatenation of the chunks.
\<close>

definition performPartialFetch :: "GetOutcome \<Rightarrow> nat \<Rightarrow> FetchError + (nat list \<times> string)" where
  "performPartialFetch outcome maxBytes =
     (case outcome of
        Aborted \<Rightarrow> Inl TimedOut
      | Rejected \<Rightarrow> Inl FetchFailed
      | Responded response \<Rightarrow>
          if getStatus response = 999 then Inl Http999
          else if \<not> (200 \<le> getStatus response \<and> getStatus response \<le> 299)
            then Inl (HttpStatus (getStatus response))
          else
            (let contentType = (case truthy (getContentType response) of
                                  Some ct \<Rightarrow> ct | None \<Rightarrow> ''text/html'')
             in case getBody response of
                  None \<Rightarrow> Inl NoResponseBody
                | Some stream \<Rightarrow>
                    (case readChunks maxBytes stream [] 0 of
                       Inl e \<Rightarrow> Inl e
                     | Inr (chunks, totalLength) \<Rightarrow> Inr (concat chunks, contentType))))"

section \<open>TTL cache\<close>

definition CACHE_DURATION :: int where
  "CACHE_DURATION = 5 * 60 * 1000"

record 'a CacheEntry =
  data :: 'a
  timestamp :: int

text \<open>
  A \<open>CacheManager\<close>: the in-memory mirror, the flag set by \<open>initialize\<close>, and
  \<open>stored\<close>, what \<open>chrome.storage.local\<close> holds under the manager's key
  (\<open>None\<close> before the first successful write). \<open>Date.now()\<close> is an argument
  \<open>now\<close> of each operation.
\<close>

record 'a CacheManager =
  memoryCache :: "string \<rightharpoonup> 'a CacheEntry"
  isInitialized :: bool
  stored :: "(string \<rightharpoonup> 'a CacheEntry) option"

definition cacheGet :: "int \<Rightarrow> string \<Rightarrow> 'a CacheManager \<Rightarrow> 'a CacheEntry option \<times> 'a CacheManager" where
  "cacheGet now key c =
     (case memoryCache c key of
        Some cached \<Rightarrow>
          if now - timestamp cached < CACHE_DURATION then (Some cached, c)
          else (None, c\<lparr>memoryCache := (memoryCache c)(key := None)\<rparr>)
      | None \<Rightarrow> (None, c))"

text \<open>
  \<open>set\<close> writes the mirror and starts \<open>persistToStorage\<close> without awaiting it, so
  the promise of \<open>set\<close> resolves with the mirror updated, whatever the store does
  later. \<open>cacheSet\<close> is the manager at that moment; the persistence task that was
  started is \<open>persistToStorage\<close> below.
\<close>

definition cacheSet :: "int \<Rightarrow> string \<Rightarrow> 'a \<Rightarrow> 'a CacheManager \<Rightarrow> 'a CacheManager" where
  "cacheSet now key d c =
     c\<lparr>memoryCache := (memoryCache c)(key \<mapsto> \<lparr>data = d, timestamp = now\<rparr>)\<rparr>"

text \<open>The loop of \<open>cleanup\<close>: every entry of age \<open>CACHE_DURATION\<close> or more is deleted.\<close>

definition deleteExpired :: "int \<Rightarrow> 'a CacheManager \<Rightarrow> 'a CacheManager" where
  "deleteExpired now c =
     c\<lparr>memoryCache :=
         (\<lambda>key. case memoryCache c key of
                  None \<Rightarrow> None
                | Some entry \<Rightarrow>
                    if now - timestamp entry \<ge> CACHE_DURATION then None else Some entry)\<rparr>"

text \<open>
  The durable store and the clock, as the persistence task meets them: whether the
  \<open>n\<close>-th call of \<open>chrome.storage.local.set\<close> resolves, the \<open>Date.now()\<close> read by
  the \<open>n\<close>-th run of \<open>persistToStorage\<close>, and the one read by the \<open>cleanup\<close>
  that follows its failure (\<open>n\<close> counts from 0).
\<close>

record StorageWorld =
  setResolves :: "nat \<Rightarrow> bool"
  persistNow :: "nat \<Rightarrow> int"
  cleanupNow :: "nat \<Rightarrow> int"

text \<open>
  \<open>persistToStorage\<close>, with the call of \<open>cleanup\<close> in its \<open>catch\<close> block written
  in place: \<open>cleanup\<close> deletes the expired entries and awaits \<open>persistToStorage\<close>
  again. The result is the manager when the task settles and the number of writes
  issued so far; \<open>None\<close> is a task that never settles.
\<close>

partial_function (option) persistToStorage ::
  "StorageWorld \<Rightarrow> nat \<Rightarrow> 'a CacheManager \<Rightarrow> ('a CacheManager \<times> nat) option" where
  "persistToStorage w n c =
     (if \<not> isInitialized c then Some (c, n)
      else
        (let now = persistNow w n;
             toStore = (\<lambda>key. case memoryCache c key of
                                None \<Rightarrow> None
                              | Some entry \<Rightarrow>
                                  if now - timestamp entry < CACHE_DURATION then Some entry else None)
         in if setResolves w n then Some (c\<lparr>stored := Some toStore\<rparr>, n + 1)
            else persistToStorage w (n + 1) (deleteExpired (cleanupNow w n) c)))"

definition cleanup :: "StorageWorld \<Rightarrow> nat \<Rightarrow> 'a CacheManager \<Rightarrow> ('a CacheManager \<times> nat) option" where
  "cleanup w n c = persistToStorage w (n + 1) (deleteExpired (cleanupNow w n) c)"

section \<open>Preflight orchestrator\<close>

text \<open>
  \<open>PreflightResult\<close>; an optional field that the source leaves out or sets to
  \<open>undefined\<close> is \<open>None\<close>. The field \<open>size\<close> is written \<open>size'\<close>.
\<close>

record PreflightResult =
  domain :: string
  type :: LinkType
  risk :: RiskLevel
  reasons :: "string list"
  size' :: "int option"
  finalUrl :: string
  fetchPlan :: FetchPlan
  redirectCount :: "nat option"
  textMismatch :: "TextMismatch option"
  videoPlatform :: "VideoPlatform option"

text \<open>The one exception that can leave \<open>performPreflightCheck\<close>: \<open>new URL\<close> throwing.\<close>

datatype Exn = TypeError

text \<open>\<open>headResult.contentLength || undefined\<close>: \<open>null\<close>, \<open>NaN\<close> and 0 are falsy.\<close>

definition sizeOrUndefined :: "Number option \<Rightarrow> int option" where
  "sizeOrUndefined n =
     (case n of None \<Rightarrow> None | Some NaN \<Rightarrow> None
      | Some (Num i) \<Rightarrow> if i = 0 then None else Some i)"

text \<open>
  \<open>performPreflightCheck\<close>, given the requests already logged. \<open>None\<close> is a
  promise that never settles (only a sniff whose body never completes causes it);
  otherwise it returns the result or the exception thrown, and the log with the requests
  it made. The two \<open>new URL(headResult.finalUrl)\<close> of the source (the one before
  \<open>detectVideoPlatform\<close>, only for videos, and the one in the returned object) are
  the two places where it can throw.
\<close>

definition performPreflightCheck ::
  "Browser \<Rightarrow> Request list \<Rightarrow> string \<Rightarrow> string \<Rightarrow> string \<Rightarrow>
   ((Exn + PreflightResult) \<times> Request list) option" where
  "performPreflightCheck env log href' anchorText pageOrigin =
     (let allSignals0 = [] in
      case normalizeAndGate env href' pageOrigin of
        None \<Rightarrow>
          Some (Inr \<lparr>domain = ''blocked'', type = Blocked, risk = Red, reasons = [''Unsafe scheme''],
                size' = None, finalUrl = href', fetchPlan = PlanBlocked, redirectCount = None,
                textMismatch = None, videoPlatform = None\<rparr>, log)
      | Some (url, gateSignals) \<Rightarrow>
          (let allSignals1 = allSignals0 @ gateSignals in
           if protocol url = ''mailto:'' then
             Some (Inr \<lparr>domain = (if hostname url \<noteq> [] then hostname url else ''email''),
                   type = Mailto, risk = Green, reasons = [],
                   size' = None, finalUrl = href url, fetchPlan = NoFetch, redirectCount = None,
                   textMismatch = None, videoPlatform = None\<rparr>, log)
           else if protocol url = ''tel:'' then
             Some (Inr \<lparr>domain = (if hostname url \<noteq> [] then hostname url else ''phone''),
                   type = Tel, risk = Green, reasons = [],
                   size' = None, finalUrl = href url, fetchPlan = NoFetch, redirectCount = None,
                   textMismatch = None, videoPlatform = None\<rparr>, log)
           else if isSamePageAnchor env url pageOrigin then
             Some (Inr \<lparr>domain = extractDomain url, type = Anchor, risk = Green, reasons = [],
                   size' = None, finalUrl = href url, fetchPlan = NoFetch, redirectCount = None,
                   textMismatch = None, videoPlatform = None\<rparr>, log)
           else
             (let (lexicalSignals, mismatch) = performLexicalChecks env url anchorText pageOrigin;
                  allSignals2 = allSignals1 @ lexicalSignals
              in if protocol url = ''http:'' \<or> protocol url = ''https:'' then
                   (let (headResult, log1) = performHeadRequest env log url;
                        allSignals3 = allSignals2 @ headSignals headResult;
                        type0 = determineLinkTypeFromContentType
                                  (contentType headResult) (contentDisposition headResult);
                        urlBasedType = guesslinkTypeFromUrl env (headFinalUrl headResult);
                        type1 = (case urlBasedType of Some t \<Rightarrow> t | None \<Rightarrow> type0);
                        sniffed =
                          (if type1 = Download \<and> includesStr (contentType headResult) ''octet-stream''
                           then
                             (case performSniff env log1 (headFinalUrl headResult) of
                                None \<Rightarrow> None
                              | Some (sniffedType, logS) \<Rightarrow>
                                  (case sniffedType of
                                     Some st \<Rightarrow>
                                       Some (st,
                                         if st = Download
                                         then allSignals3 @ [\<lparr>level = Red, reason = ''Executable download''\<rparr>]
                                         else allSignals3,
                                         logS)
                                   | None \<Rightarrow> Some (type1, allSignals3, logS)))
                           else Some (type1, allSignals3, log1))
                    in case sniffed of
                         None \<Rightarrow> None
                       | Some (type2, allSignals4, log2) \<Rightarrow>
                           (let (risk1, reasons1) = scoreRisk allSignals4;
                                plan = decideFetchPlan type2 risk1;
                                detected =
                                  (if type2 = Video then
                                     (case newURL env (headFinalUrl headResult) None of
                                        None \<Rightarrow> Inl TypeError
                                      | Some u \<Rightarrow> Inr (detectVideoPlatform u))
                                   else Inr None)
                            in case detected of
                                 Inl e \<Rightarrow> Some (Inl e, log2)
                               | Inr platformFound \<Rightarrow>
                                   (case newURL env (headFinalUrl headResult) None of
                                      None \<Rightarrow> Some (Inl TypeError, log2)
                                    | Some finalUrlObj \<Rightarrow>
                                        Some (Inr \<lparr>domain = extractDomain finalUrlObj,
                                              type = type2, risk = risk1, reasons = reasons1,
                                              size' = sizeOrUndefined (contentLength headResult),
                                              finalUrl = headFinalUrl headResult,
                                              fetchPlan = plan,
                                              redirectCount = Some (headRedirectCount headResult),
                                              textMismatch = mismatch,
                                              videoPlatform = platformFound\<rparr>, log2))))
                 else
                   Some (Inr \<lparr>domain = extractDomain url, type = Blocked, risk = Red,
                         reasons = [''Unknown protocol''],
                         size' = None, finalUrl = href url, fetchPlan = PlanBlocked,
                         redirectCount = None, textMismatch = None, videoPlatform = None\<rparr>, log))))"


section \<open>A concrete browser for the examples\<close>

text \<open>
  The examples below run the pipeline in a browser whose URL parser is given on the
  URLs the examples use, with the fields the WHATWG parser computes for them; any
  other input is rejected. As in the platform, an absolute input is parsed without
  the base, but a base that does not parse makes \<open>new URL\<close> throw.
\<close>

definition mkURL :: "string \<Rightarrow> string \<Rightarrow> string \<Rightarrow> string \<Rightarrow> URL" where
  "mkURL h proto host path =
     \<lparr>href = h, protocol = proto, hostname = host, pathname = path,
      search = [], hash = [], searchParams = []\<rparr>"

definition demoParse :: "string \<Rightarrow> URL option" where
  "demoParse input =
     (if input = ''https://page.test/'' then Some (mkURL input ''https:'' ''page.test'' ''/'')
      else if input = ''javascript:alert(1)'' then Some (mkURL input ''javascript:'' [] ''alert(1)'')
      else if input = ''https://example.com/report.pdf''
        then Some (mkURL input ''https:'' ''example.com'' ''/report.pdf'')
      else if input = ''https://example.com/get'' then Some (mkURL input ''https:'' ''example.com'' ''/get'')
      else if input = ''https://example.com/blob''
        then Some (mkURL input ''https:'' ''example.com'' ''/blob'')
      else if input = ''https://a.test/0'' then Some (mkURL input ''https:'' ''a.test'' ''/0'')
      else if input = ''https://a.test/1'' then Some (mkURL input ''https:'' ''a.test'' ''/1'')
      else if input = ''https://a.test/2'' then Some (mkURL input ''https:'' ''a.test'' ''/2'')
      else if input = ''https://a.test/3'' then Some (mkURL input ''https:'' ''a.test'' ''/3'')
      else if input = ''https://b.test/0'' then Some (mkURL input ''https:'' ''b.test'' ''/0'')
      else if input = ''https://b.test/1'' then Some (mkURL input ''https:'' ''b.test'' ''/1'')
      else if input = ''https://b.test/2'' then Some (mkURL input ''https:'' ''b.test'' ''/2'')
      else if input = ''https://b.test/3'' then Some (mkURL input ''https:'' ''b.test'' ''/3'')
      else None)"

definition demoNewURL :: "string \<Rightarrow> string option \<Rightarrow> URL option" where
  "demoNewURL input base =
     (case base of
        None \<Rightarrow> demoParse input
      | Some b \<Rightarrow> (case demoParse b of None \<Rightarrow> None | Some _ \<Rightarrow> demoParse input))"

definition redirectTo :: "nat \<Rightarrow> string \<Rightarrow> Response" where
  "redirectTo code target =
     \<lparr>status = code, headerLocation = Some target, headerContentType = None,
      headerContentLength = None, headerContentDisposition = None\<rparr>"

text \<open>
  The servers: \<open>a.test\<close> redirects \<open>/0\<close> to \<open>/1\<close> to \<open>/2\<close> to \<open>/3\<close>, which
  answers 200; \<open>b.test\<close> does the same and redirects \<open>/3\<close> once more;
  \<open>example.com/report.pdf\<close> is a PDF sent as an attachment,
  \<open>example.com/get\<close> an attachment of unknown type whose bytes start with
  \<open>%PDF\<close>, and \<open>example.com/blob\<close> a binary whose ranged GET is rejected.
\<close>

definition demoHead :: "Request list \<Rightarrow> string \<Rightarrow> Response option" where
  "demoHead log url =
     (if url = ''https://a.test/0'' then Some (redirectTo 302 ''https://a.test/1'')
      else if url = ''https://a.test/1'' then Some (redirectTo 301 ''https://a.test/2'')
      else if url = ''https://a.test/2'' then Some (redirectTo 307 ''https://a.test/3'')
      else if url = ''https://a.test/3'' then
        Some \<lparr>status = 200, headerLocation = None, headerContentType = Some ''text/html'',
              headerContentLength = Some ''120'', headerContentDisposition = None\<rparr>
      else if url = ''https://b.test/0'' then Some (redirectTo 302 ''https://b.test/1'')
      else if url = ''https://b.test/1'' then Some (redirectTo 302 ''https://b.test/2'')
      else if url = ''https://b.test/2'' then Some (redirectTo 302 ''https://b.test/3'')
      else if url = ''https://b.test/3'' then Some (redirectTo 302 ''https://b.test/4'')
      else if url = ''https://example.com/report.pdf'' then
        Some \<lparr>status = 200, headerLocation = None, headerContentType = Some ''application/pdf'',
              headerContentLength = Some ''52340'',
              headerContentDisposition = Some ''attachment; filename=report.pdf''\<rparr>
      else if url = ''https://example.com/get'' then
        Some \<lparr>status = 200, headerLocation = None,
              headerContentType = Some ''application/octet-stream'',
              headerContentLength = None,
              headerContentDisposition = Some ''attachment''\<rparr>
      else if url = ''https://example.com/blob'' then
        Some \<lparr>status = 200, headerLocation = None,
              headerContentType = Some ''application/octet-stream'',
              headerContentLength = Some ''4096'',
              headerContentDisposition = None\<rparr>
      else None)"

definition demoBrowser :: Browser where
  "demoBrowser =
     \<lparr>newURL = demoNewURL, fetchHead = demoHead,
      fetchRange = (\<lambda>log url. if url = ''https://example.com/get''
                               then RangeBody [0x25, 0x50, 0x44, 0x46, 0x2D]
                               else RangeRejected)\<rparr>"



definition emptyCache :: "'a CacheManager" where
  "emptyCache = \<lparr>memoryCache = Map.empty, isInitialized = True, stored = None\<rparr>"




text \<open>
  Two durable stores for the examples: one that rejects the first two writes and accepts
  the third, and one that rejects every write (a quota that stays exceeded). The clock
  advances by one millisecond per read.
\<close>

definition rejectTwice :: StorageWorld where
  "rejectTwice =
     \<lparr>setResolves = (\<lambda>n. n \<ge> 2), persistNow = (\<lambda>n. 1000 + 2 * int n),
      cleanupNow = (\<lambda>n. 1001 + 2 * int n)\<rparr>"

definition rejectAlways :: StorageWorld where
  "rejectAlways =
     \<lparr>setResolves = (\<lambda>n. False), persistNow = (\<lambda>n. 1000 + 2 * int n),
      cleanupNow = (\<lambda>n. 1001 + 2 * int n)\<rparr>"




section \<open>Theorems\<close>

subsection \<open>Fetch planner\<close>

text \<open>
  C3. The fetch planner is exactly the priority table of the specification: Blocked
  gives Blocked; else Download with Red gives Blocked; else Mailto, Tel, Anchor, Video
  give NoFetch; else Image, Webpage, PDF give PartialGet; else Download gives HeadOnly;
  anything left gives PartialGet. The two functions agree on every (type, tier) pair.
\<close>

theorem decideFetchPlan_is_table:
  "decideFetchPlan t tier = fetchPlanTable t tier"
  by (cases t; cases tier; simp add: decideFetchPlan_def fetchPlanTable_def)

subsection \<open>Risk reduction\<close>

lemma scoreRisk_cases:
  "scoreRisk signals =
     (if \<exists>s \<in> set signals. level s = Red
        then (Red, map reason (take 2 (filter (\<lambda>s. level s = Red) signals)))
      else if \<exists>s \<in> set signals. level s = Amber
        then (Amber, map reason (take 2 (filter (\<lambda>s. level s = Amber) signals)))
      else (Green, []))"
  by (auto simp: scoreRisk_def Let_def filter_empty_conv)

text \<open>
  C4. Risk reduction over a finite list of signals: a Red signal anywhere makes the
  tier Red with the first two Red reasons in list order; otherwise an Amber signal
  makes it Amber with the first two Amber reasons; otherwise the tier is Green with no
  reasons. Hence the reduction is monotonic: appending a Red signal to a list that
  scored Amber scores Red, appending a Green signal changes nothing, and appending any
  signals never lowers the tier.
\<close>

theorem scoreRisk_reduction:
  "scoreRisk signals =
     (if \<exists>s \<in> set signals. level s = Red
        then (Red, map reason (take 2 (filter (\<lambda>s. level s = Red) signals)))
      else if \<exists>s \<in> set signals. level s = Amber
        then (Amber, map reason (take 2 (filter (\<lambda>s. level s = Amber) signals)))
      else (Green, []))
   \<and> (fst (scoreRisk signals) = Amber \<longrightarrow> level r = Red \<longrightarrow>
        fst (scoreRisk (signals @ [r])) = Red)
   \<and> (level g = Green \<longrightarrow> scoreRisk (signals @ [g]) = scoreRisk signals)
   \<and> tierRank (fst (scoreRisk signals)) \<le> tierRank (fst (scoreRisk (signals @ extra)))"
proof (intro conjI impI)
  show "scoreRisk signals =
     (if \<exists>s \<in> set signals. level s = Red
        then (Red, map reason (take 2 (filter (\<lambda>s. level s = Red) signals)))
      else if \<exists>s \<in> set signals. level s = Amber
        then (Amber, map reason (take 2 (filter (\<lambda>s. level s = Amber) signals)))
      else (Green, []))"
    by (rule scoreRisk_cases)
next
  assume "fst (scoreRisk signals) = Amber" and "level r = Red"
  then show "fst (scoreRisk (signals @ [r])) = Red"
    by (simp add: scoreRisk_cases)
next
  assume "level g = Green"
  then show "scoreRisk (signals @ [g]) = scoreRisk signals"
    by (simp add: scoreRisk_cases)
next
  show "tierRank (fst (scoreRisk signals)) \<le> tierRank (fst (scoreRisk (signals @ extra)))"
    by (auto simp: scoreRisk_cases)
qed

theorem scoreRisk_reduction_witness:
  "scoreRisk [\<lparr>level = Amber, reason = ''a1''\<rparr>, \<lparr>level = Green, reason = ''g''\<rparr>,
              \<lparr>level = Amber, reason = ''a2''\<rparr>, \<lparr>level = Amber, reason = ''a3''\<rparr>]
     = (Amber, [''a1'', ''a2''])
   \<and> fst (scoreRisk ([\<lparr>level = Amber, reason = ''a1''\<rparr>, \<lparr>level = Green, reason = ''g''\<rparr>,
              \<lparr>level = Amber, reason = ''a2''\<rparr>, \<lparr>level = Amber, reason = ''a3''\<rparr>]
              @ [\<lparr>level = Red, reason = ''r''\<rparr>])) = Red
   \<and> scoreRisk ([\<lparr>level = Amber, reason = ''a1''\<rparr>, \<lparr>level = Green, reason = ''g''\<rparr>,
              \<lparr>level = Amber, reason = ''a2''\<rparr>, \<lparr>level = Amber, reason = ''a3''\<rparr>]
              @ [\<lparr>level = Green, reason = ''g2''\<rparr>]) = (Amber, [''a1'', ''a2''])"
  using scoreRisk_reduction
    [of "[\<lparr>level = Amber, reason = ''a1''\<rparr>, \<lparr>level = Green, reason = ''g''\<rparr>,
          \<lparr>level = Amber, reason = ''a2''\<rparr>, \<lparr>level = Amber, reason = ''a3''\<rparr>]"
        "\<lparr>level = Red, reason = ''r''\<rparr>" "\<lparr>level = Green, reason = ''g2''\<rparr>" "[]"]
  by simp

subsection \<open>The scheme gate\<close>

lemma gate_null_blocked:
  "normalizeAndGate env h pageOrigin = None \<Longrightarrow>
   performPreflightCheck env log h anchorText pageOrigin =
     Some (Inr \<lparr>domain = ''blocked'', type = Blocked, risk = Red, reasons = [''Unsafe scheme''],
           size' = None, finalUrl = h, fetchPlan = PlanBlocked, redirectCount = None,
           textMismatch = None, videoPlatform = None\<rparr>, log)"
  by (simp add: performPreflightCheck_def)

text \<open>
  C1. When the href parses (against the page origin) to a URL whose scheme is one of
  javascript:, data:, file:, vbscript:, \<open>performPreflightCheck\<close> returns type
  Blocked, risk Red, reasons ["Unsafe scheme"] and fetch plan Blocked, whatever the
  anchor text and the page origin, and the request log is unchanged: no probe is made.
\<close>

theorem unsafe_scheme_blocked:
  assumes "newURL env h (Some pageOrigin) = Some url"
    and "protocol url \<in> {''javascript:'', ''data:'', ''file:'', ''vbscript:''}"
  shows "performPreflightCheck env log h anchorText pageOrigin =
     Some (Inr \<lparr>domain = ''blocked'', type = Blocked, risk = Red, reasons = [''Unsafe scheme''],
           size' = None, finalUrl = h, fetchPlan = PlanBlocked, redirectCount = None,
           textMismatch = None, videoPlatform = None\<rparr>, log)"
proof -
  from assms have "normalizeAndGate env h pageOrigin = None"
    by (auto simp: normalizeAndGate_def dangerousSchemes_def)
  then show ?thesis by (rule gate_null_blocked)
qed

lemma demo_js: "newURL demoBrowser ''javascript:alert(1)'' (Some ''https://page.test/'')
   = Some (mkURL ''javascript:alert(1)'' ''javascript:'' [] ''alert(1)'')"
  by (simp add: demoBrowser_def demoNewURL_def demoParse_def)

theorem unsafe_scheme_blocked_witness:
  "performPreflightCheck demoBrowser [] ''javascript:alert(1)'' ''click me'' ''https://page.test/'' =
     Some (Inr \<lparr>domain = ''blocked'', type = Blocked, risk = Red, reasons = [''Unsafe scheme''],
           size' = None, finalUrl = ''javascript:alert(1)'', fetchPlan = PlanBlocked,
           redirectCount = None, textMismatch = None, videoPlatform = None\<rparr>, [])"
  by (rule unsafe_scheme_blocked [OF demo_js]) (simp add: mkURL_def)

text \<open>
  C10. When the href does not parse against the page origin, the result is the one of
  the unsafe-scheme case: type Blocked, risk Red, reasons ["Unsafe scheme"], fetch plan
  Blocked, \<open>finalUrl\<close> the raw href, and no request is made; it equals the result
  the same href gets wherever it parses to a dangerous scheme.
\<close>

theorem parse_failure_blocked:
  assumes "newURL env h (Some pageOrigin) = None"
  shows "performPreflightCheck env log h anchorText pageOrigin =
     Some (Inr \<lparr>domain = ''blocked'', type = Blocked, risk = Red, reasons = [''Unsafe scheme''],
           size' = None, finalUrl = h, fetchPlan = PlanBlocked, redirectCount = None,
           textMismatch = None, videoPlatform = None\<rparr>, log)
   \<and> (\<forall>env2 origin2 text2 url2.
         newURL env2 h (Some origin2) = Some url2 \<and> protocol url2 \<in> set dangerousSchemes \<longrightarrow>
         performPreflightCheck env2 log h text2 origin2 =
         performPreflightCheck env log h anchorText pageOrigin)"
proof -
  from assms have n: "normalizeAndGate env h pageOrigin = None"
    by (simp add: normalizeAndGate_def)
  have "performPreflightCheck env2 log h text2 origin2 =
         performPreflightCheck env log h anchorText pageOrigin"
    if "newURL env2 h (Some origin2) = Some url2" "protocol url2 \<in> set dangerousSchemes"
    for env2 origin2 text2 url2
  proof -
    from that have "normalizeAndGate env2 h origin2 = None"
      by (auto simp: normalizeAndGate_def)
    then show ?thesis by (simp add: gate_null_blocked n)
  qed
  with n show ?thesis by (simp add: gate_null_blocked)
qed

lemma demo_bad: "newURL demoBrowser ''http://[bad'' (Some ''https://page.test/'') = None"
  by (simp add: demoBrowser_def demoNewURL_def demoParse_def)

lemma demo_bad_base: "newURL demoBrowser ''javascript:alert(1)'' (Some ''not a url'') = None"
  by (simp add: demoBrowser_def demoNewURL_def demoParse_def)

theorem parse_failure_blocked_witness:
  "performPreflightCheck demoBrowser [] ''http://[bad'' ''docs'' ''https://page.test/'' =
     Some (Inr \<lparr>domain = ''blocked'', type = Blocked, risk = Red, reasons = [''Unsafe scheme''],
           size' = None, finalUrl = ''http://[bad'', fetchPlan = PlanBlocked,
           redirectCount = None, textMismatch = None, videoPlatform = None\<rparr>, [])
   \<and> performPreflightCheck demoBrowser [] ''javascript:alert(1)'' ''docs'' ''https://page.test/'' =
     performPreflightCheck demoBrowser [] ''javascript:alert(1)'' ''docs'' ''not a url''"
proof -
  have d: "protocol (mkURL ''javascript:alert(1)'' ''javascript:'' [] ''alert(1)'') \<in> set dangerousSchemes"
    by (simp add: mkURL_def dangerousSchemes_def)
  from parse_failure_blocked [OF demo_bad, of "[]" "''docs''"]
    parse_failure_blocked [OF demo_bad_base, of "[]" "''docs''"] demo_js d
  show ?thesis by blast
qed

subsection \<open>Redirect following\<close>












subsection \<open>TTL cache\<close>

text \<open>
  C8. Cache round trip: \<open>get(k)\<close> after \<open>set(k, v)\<close>, less than the 5-minute TTL
  (300000 ms) later, returns the entry with \<open>v\<close> unchanged and leaves the cache as it
  is, also when a compaction ran in between within the TTL; and for an entry whose age
  has reached the TTL, \<open>get(k)\<close> returns absent and deletes the entry from the
  in-memory mirror, touching nothing else (the durable copy included).
\<close>

theorem cache_round_trip:
  "CACHE_DURATION = 300000
   \<and> (now' - now < CACHE_DURATION \<longrightarrow>
        cacheGet now' k (cacheSet now k v c) =
          (Some \<lparr>data = v, timestamp = now\<rparr>, cacheSet now k v c))
   \<and> (now' - now < CACHE_DURATION \<longrightarrow> t - now < CACHE_DURATION \<longrightarrow>
        fst (cacheGet now' k (deleteExpired t (cacheSet now k v c))) =
          Some \<lparr>data = v, timestamp = now\<rparr>)
   \<and> (memoryCache c k = Some e \<longrightarrow> now' - timestamp e \<ge> CACHE_DURATION \<longrightarrow>
        cacheGet now' k c = (None, c\<lparr>memoryCache := (memoryCache c)(k := None)\<rparr>))"
  by (simp add: cacheGet_def cacheSet_def deleteExpired_def CACHE_DURATION_def)

theorem cache_round_trip_witness:
  "cacheGet 300999 ''k'' (cacheSet 1000 ''k'' (7::nat) emptyCache) =
     (Some \<lparr>data = 7, timestamp = 1000\<rparr>, cacheSet 1000 ''k'' 7 emptyCache)
   \<and> fst (cacheGet 300999 ''k'' (deleteExpired 2000 (cacheSet 1000 ''k'' (7::nat) emptyCache))) =
        Some \<lparr>data = 7, timestamp = 1000\<rparr>
   \<and> cacheGet 301000 ''k'' (cacheSet 1000 ''k'' (7::nat) emptyCache) =
        (None, (cacheSet 1000 ''k'' 7 emptyCache)
                 \<lparr>memoryCache := (memoryCache (cacheSet 1000 ''k'' 7 emptyCache))(''k'' := None)\<rparr>)"
proof -
  have m: "memoryCache (cacheSet 1000 ''k'' (7::nat) emptyCache) ''k'' =
           Some \<lparr>data = 7, timestamp = 1000\<rparr>"
    by (simp add: cacheSet_def)
  from cache_round_trip [of 300999 1000 "''k''" "7::nat" emptyCache 2000]
    cache_round_trip [of 301000 0 "''k''" "7::nat" "cacheSet 1000 ''k'' (7::nat) emptyCache" 0
      "\<lparr>data = 7, timestamp = 1000\<rparr>"] m
  show ?thesis by simp
qed

lemma persist_attempt_fails:
  assumes "isInitialized c" and "\<not> setResolves w n"
  shows "persistToStorage w n c = persistToStorage w (n + 1) (deleteExpired (cleanupNow w n) c)"
  using assms by (subst persistToStorage.simps) (simp add: Let_def)

lemma persist_never_settles_aux:
  assumes "persistToStorage w n c = Some r"
  shows "(\<forall>m. \<not> setResolves w m) \<longrightarrow> \<not> isInitialized c"
proof (rule persistToStorage.raw_induct
    [where P = "\<lambda>w n c r. (\<forall>m. \<not> setResolves w m) \<longrightarrow> \<not> isInitialized c", OF _ assms],
    goal_cases)
  case (1 f w n c r)
  show ?case
  proof (intro impI notI)
    assume rej: "\<forall>m. \<not> setResolves w m" and ini: "isInitialized c"
    from ini have i: "isInitialized (deleteExpired (cleanupNow w n) c)"
      by (simp add: deleteExpired_def)
    from rej ini 1(2) have "f w (n + 1) (deleteExpired (cleanupNow w n) c) = Some r"
      by (simp add: Let_def split: if_splits)
    from 1(1) [OF this] rej i show False
      by blast
  qed
qed

lemma persist_never_settles:
  assumes "\<forall>m. \<not> setResolves w m" and "isInitialized c"
  shows "persistToStorage w n c = None"
proof (cases "persistToStorage w n c")
  case None
  then show ?thesis .
next
  case (Some r)
  from persist_never_settles_aux [OF Some] assms show ?thesis
    by blast
qed

lemma persist_attempt_succeeds:
  assumes "isInitialized c" and "setResolves w n"
  shows "map_option snd (persistToStorage w n c) = Some (n + 1)"
  using assms by (subst persistToStorage.simps) (simp add: Let_def)

lemma deleteExpired_initialized:
  "isInitialized (deleteExpired t c) = isInitialized c"
  by (simp add: deleteExpired_def)

text \<open>
  C9. A store that rejects the first two writes of the persistence task started by
  \<open>set\<close> gets a third write: two retries, not one. A store that rejects every write
  is retried without end: the task never settles.
\<close>

theorem persist_retries_unbounded:
  "map_option snd (persistToStorage rejectTwice 0 (cacheSet 1000 ''k'' (7::nat) emptyCache)) = Some 3
   \<and> persistToStorage rejectAlways 0 (cacheSet 1000 ''k'' (7::nat) emptyCache) = None"
proof
  have i: "isInitialized (cacheSet 1000 ''k'' (7::nat) emptyCache)"
    by (simp add: cacheSet_def emptyCache_def)
  have r: "\<not> setResolves rejectTwice 0" "\<not> setResolves rejectTwice 1" "setResolves rejectTwice 2"
    by (simp_all add: rejectTwice_def)
  show "map_option snd (persistToStorage rejectTwice 0
          (cacheSet 1000 ''k'' (7::nat) emptyCache)) = Some 3"
    using persist_attempt_succeeds [OF _ r(3), of
        "deleteExpired (cleanupNow rejectTwice 1)
           (deleteExpired (cleanupNow rejectTwice 0) (cacheSet 1000 ''k'' (7::nat) emptyCache))"]
    by (simp add: persist_attempt_fails [OF _ r(1)] persist_attempt_fails [OF _ r(2)]
          deleteExpired_initialized i del: One_nat_def)
  show "persistToStorage rejectAlways 0 (cacheSet 1000 ''k'' (7::nat) emptyCache) = None"
    by (rule persist_never_settles) (simp_all add: rejectAlways_def i)
qed

subsection \<open>Partial fetch\<close>

lemma readChunks_bound:
  assumes "readChunks maxBytes stream chunks totalLength = Inr (cs, n)"
    and "totalLength = length (concat chunks)"
    and "chunks = [] \<or> length (concat (butlast chunks)) < maxBytes"
  shows "n = length (concat cs) \<and> (cs = [] \<or> length (concat (butlast cs)) < maxBytes)"
  using assms
proof (induction maxBytes stream chunks totalLength rule: readChunks.induct)
  case (1 maxBytes chunks totalLength)
  then show ?case by auto
next
  case (2 maxBytes rest chunks totalLength)
  then show ?case by (auto split: if_splits)
next
  case (3 maxBytes v rest chunks totalLength)
  show ?case
  proof (cases "totalLength < maxBytes")
    case False
    with "3.prems" show ?thesis by auto
  next
    case True
    show ?thesis
    proof (cases "totalLength + length v \<ge> maxBytes")
      case True
      with \<open>totalLength < maxBytes\<close> "3.prems" show ?thesis by auto
    next
      case False
      with \<open>totalLength < maxBytes\<close> "3.prems"
      have r: "readChunks maxBytes rest (chunks @ [v]) (totalLength + length v) = Inr (cs, n)"
        by (simp add: Let_def)
      from \<open>totalLength < maxBytes\<close> "3.prems"(2)
      have "chunks @ [v] = [] \<or> length (concat (butlast (chunks @ [v]))) < maxBytes"
        by simp
      with "3.IH" [OF \<open>totalLength < maxBytes\<close> refl refl False r] "3.prems"(2)
      show ?thesis by simp
    qed
  qed
qed

lemma performPartialFetch_overshoot:
  assumes "performPartialFetch outcome maxBytes = Inr (bytes, ct)"
  shows "\<exists>cs. bytes = concat cs \<and> (cs = [] \<or> length (concat (butlast cs)) < maxBytes)"
proof -
  from assms obtain stream cs n where
    r: "readChunks maxBytes stream [] 0 = Inr (cs, n)" and b: "bytes = concat cs"
    by (auto simp: performPartialFetch_def Let_def
          split: GetOutcome.splits if_splits option.splits sum.splits)
  from readChunks_bound [OF r] b show ?thesis
    by auto
qed

text \<open>
  C7. With a ceiling of 4 bytes and a body delivered as the chunks [1,2,3], [4,5,6],
  [7], \<open>performPartialFetch\<close> resolves with the 6 bytes of the first two chunks: the
  chunk that crosses the ceiling is kept whole.
\<close>

theorem partial_fetch_exceeds_ceiling:
  "performPartialFetch
     (Responded \<lparr>getStatus = 200, getContentType = Some ''text/html'',
                 getBody = Some [Chunk [1, 2, 3], Chunk [4, 5, 6], Chunk [7]]\<rparr>) 4
   = Inr ([1, 2, 3, 4, 5, 6], ''text/html'')
   \<and> length [1, 2, 3, 4, 5, 6 :: nat] > 4"
  by (simp add: performPartialFetch_def truthy_def)

subsection \<open>Type decision\<close>







subsection \<open>The orchestrator's boundary\<close>



lemma sniff_pending_iff:
  "performSniff env log u = None \<longleftrightarrow> fetchRange env log u = RangeStalls"
  by (simp add: performSniff_def Let_def split: RangeOutcome.splits)







lemma gate_http:
  assumes "newURL env h (Some pageOrigin) = Some url"
    and "protocol url = ''http:'' \<or> protocol url = ''https:''"
  shows "normalizeAndGate env h pageOrigin = Some (url, [])"
  using assms by (auto simp: normalizeAndGate_def dangerousSchemes_def)




lemma preflight_sniff_stalls:
  assumes parse: "newURL env h (Some pageOrigin) = Some url"
    and http: "protocol url = ''http:'' \<or> protocol url = ''https:''"
    and page: "\<not> isSamePageAnchor env url pageOrigin"
    and head: "performHeadRequest env log url = (headResult, log1)"
    and dl: "(case guesslinkTypeFromUrl env (headFinalUrl headResult) of
                Some t \<Rightarrow> t
              | None \<Rightarrow> determineLinkTypeFromContentType (contentType headResult)
                          (contentDisposition headResult)) = Download"
    and oct: "includesStr (contentType headResult) ''octet-stream''"
    and stall: "fetchRange env log1 (headFinalUrl headResult) = RangeStalls"
  shows "performPreflightCheck env log h anchorText pageOrigin = None"
proof -
  from http have m: "protocol url \<noteq> ''mailto:''" "protocol url \<noteq> ''tel:''"
    by auto
  from stall have s: "performSniff env log1 (headFinalUrl headResult) = None"
    by (simp add: sniff_pending_iff)
  show ?thesis
    unfolding performPreflightCheck_def
    using http
    by (auto simp: gate_http [OF parse http] m page head dl oct s Let_def split: prod.splits)
qed

















subsection \<open>The persistence task and the round trip\<close>

text \<open>
  The persistence task started by \<open>set\<close> changes the mirror only through
  \<open>cleanup\<close>; as long as its clock reads stay within the TTL of an entry, the
  entry survives a task that settles, and \<open>get\<close> still returns it.
\<close>

lemma persist_failure_is_cleanup:
  "isInitialized c \<Longrightarrow> \<not> setResolves w n \<Longrightarrow> persistToStorage w n c = cleanup w n c"
  by (simp add: cleanup_def persist_attempt_fails)

lemma persist_keeps_fresh_aux:
  assumes "persistToStorage w n c = Some r"
  shows "memoryCache c k = Some e \<longrightarrow>
         (\<forall>i. cleanupNow w i - timestamp e < CACHE_DURATION) \<longrightarrow>
         memoryCache (fst r) k = Some e"
proof (rule persistToStorage.raw_induct
    [where P = "\<lambda>w n c r. memoryCache c k = Some e \<longrightarrow>
         (\<forall>i. cleanupNow w i - timestamp e < CACHE_DURATION) \<longrightarrow>
         memoryCache (fst r) k = Some e", OF _ assms],
    goal_cases)
  case (1 f w n c r)
  show ?case
  proof (intro impI)
    assume m: "memoryCache c k = Some e"
      and t: "\<forall>i. cleanupNow w i - timestamp e < CACHE_DURATION"
    from t have "cleanupNow w n - timestamp e < CACHE_DURATION"
      by simp
    with m have d: "memoryCache (deleteExpired (cleanupNow w n) c) k = Some e"
      by (simp add: deleteExpired_def)
    show "memoryCache (fst r) k = Some e"
    proof (cases "isInitialized c")
      case False
      with 1(2) have "r = (c, n)"
        by simp
      with m show ?thesis by simp
    next
      case True
      show ?thesis
      proof (cases "setResolves w n")
        case True
        with \<open>isInitialized c\<close> 1(2) have "memoryCache (fst r) = memoryCache c"
          by (auto simp: Let_def)
        with m show ?thesis by simp
      next
        case False
        with \<open>isInitialized c\<close> 1(2)
        have "f w (n + 1) (deleteExpired (cleanupNow w n) c) = Some r"
          by (simp add: Let_def)
        from 1(1) [OF this] d t show ?thesis by blast
      qed
    qed
  qed
qed

lemma set_persist_get:
  assumes "persistToStorage w n (cacheSet now k v c) = Some (c', m)"
    and "\<forall>i. cleanupNow w i - now < CACHE_DURATION"
    and "now' - now < CACHE_DURATION"
  shows "fst (cacheGet now' k c') = Some \<lparr>data = v, timestamp = now\<rparr>"
proof -
  have "memoryCache (cacheSet now k v c) k = Some \<lparr>data = v, timestamp = now\<rparr>"
    by (simp add: cacheSet_def)
  with persist_keeps_fresh_aux [OF assms(1), of k "\<lparr>data = v, timestamp = now\<rparr>"] assms(2)
  have "memoryCache c' k = Some \<lparr>data = v, timestamp = now\<rparr>"
    by simp
  with assms(3) show ?thesis
    by (simp add: cacheGet_def)
qed

end
